theory Spec2Isabelle
  imports Complex_Main
begin

section \<open>The \<open>octoprint config\<close> command line: \<open>src/octoprint/cli/config.py\<close>\<close>

text \<open>
  The module is a set of click commands over a settings object. Each command
  normalises a dot-separated path, optionally parses its value argument as JSON,
  reads and writes the settings object through \<open>get\<close>, \<open>set\<close>, \<open>setBoolean\<close>,
  \<open>setFloat\<close>, \<open>setInt\<close> and \<open>save\<close>, prints with \<open>click.echo\<close> and leaves through
  \<open>ctx.exit\<close>. The code is Python 2 (\<open>e.message\<close>, \<open>filter\<close> and \<open>map\<close> returning
  lists).
\<close>

subsection \<open>Strings: \<open>str.split\<close> and \<open>str.strip\<close>\<close>

text \<open>
  A \<open>string\<close> is the list of the code points of the text; the click \<open>STRING\<close>
  type hands the commands unicode text. \<open>isspace\<close> is \<open>unicode.isspace\<close> on the
  code points below 256: 9 to 13, 28 to 32, 133 and 160.
\<close>

definition isspace :: "char \<Rightarrow> bool" where
  "isspace c =
     (let n = (of_char c :: nat)
      in (9 \<le> n \<and> n \<le> 13) \<or> (28 \<le> n \<and> n \<le> 32) \<or> n = 133 \<or> n = 160)"

text \<open>
  \<open>s.strip()\<close> as the interpreter computes it: an index \<open>i\<close> runs up from 0 while
  \<open>s[i]\<close> is white space, an index \<open>j\<close> runs down from \<open>len(s)\<close> while \<open>j > i\<close> and
  \<open>s[j-1]\<close> is white space, and the result is the slice \<open>s[i:j]\<close>.
\<close>

function strip_left :: "string \<Rightarrow> nat \<Rightarrow> nat" where
  "strip_left s i = (if i < length s \<and> isspace (s ! i) then strip_left s (Suc i) else i)"
  by pat_completeness auto
termination
  by (relation "measure (\<lambda>(s, i). length s - i)") auto

function strip_right :: "string \<Rightarrow> nat \<Rightarrow> nat \<Rightarrow> nat" where
  "strip_right s i j = (if i < j \<and> isspace (s ! (j - 1)) then strip_right s i (j - 1) else j)"
  by pat_completeness auto
termination
  by (relation "measure (\<lambda>(s, i, j). j)") auto

definition strip :: "string \<Rightarrow> string" where
  "strip s =
     (let i = strip_left s 0;
          j = strip_right s i (length s)
      in take (j - i) (drop i s))"

text \<open>
  \<open>s.split(sep)\<close> for a separator of one character: the scan collects the
  characters of the current token in \<open>tok\<close>, closes the token at each separator,
  and closes the last token at the end of the text, so that \<open>n\<close> separators give
  \<open>n + 1\<close> tokens and the empty text gives one empty token.
\<close>

fun split_scan :: "char \<Rightarrow> string \<Rightarrow> string \<Rightarrow> string list" where
  "split_scan sep tok [] = [tok]"
| "split_scan sep tok (c # cs) =
     (if c = sep then tok # split_scan sep [] cs else split_scan sep (tok @ [c]) cs)"

definition split :: "string \<Rightarrow> char \<Rightarrow> string list" where
  "split s sep = split_scan sep [] s"

subsection \<open>\<open>_to_settings_path\<close>\<close>

text \<open>
  The argument is a text, a list or a tuple. \<open>isinstance(path, (list, tuple))\<close>
  holds of the last two, which are returned as they are. For a text, \<open>map\<close>
  strips every token of the split, and \<open>filter(lambda x: x, ...)\<close> keeps the
  tokens that are true, that is, not empty; on a list, \<open>filter\<close> returns a list.
\<close>

datatype path = PathStr string | PathList "string list" | PathTuple "string list"

fun to_settings_path :: "path \<Rightarrow> path" where
  "to_settings_path (PathStr s) =
     PathList (filter (\<lambda>x. x \<noteq> []) (map (\<lambda>x. strip x) (split s (CHR ''.''))))"
| "to_settings_path (PathList xs) = PathList xs"
| "to_settings_path (PathTuple xs) = PathTuple xs"

subsection \<open>Path normalisation as the specification words it\<close>

text \<open>
  The specification's \<open>normalize_path\<close>, written from its sentences and not from
  the code: the tokens of a text are the maximal runs of characters between
  separators; trimming removes the white space at both ends; empty tokens are
  dropped and the order is kept.
\<close>

fun spec_tokens :: "string \<Rightarrow> string list" where
  "spec_tokens [] = [] # []"
| "spec_tokens (c # cs) =
     (if c = CHR ''.'' then [] # spec_tokens cs
      else (case spec_tokens cs of [] \<Rightarrow> [c] # [] | t # ts \<Rightarrow> (c # t) # ts))"

text \<open>Joining tokens with the dot, to say what a split is.\<close>

fun join_tokens :: "string list \<Rightarrow> string" where
  "join_tokens [] = []"
| "join_tokens [t] = t"
| "join_tokens (t # u # ts) = t @ CHR ''.'' # join_tokens (u # ts)"

definition spec_trim :: "string \<Rightarrow> string" where
  "spec_trim t = rev (dropWhile isspace (rev (dropWhile isspace t)))"

definition spec_normalize_path :: "string \<Rightarrow> string list" where
  "spec_normalize_path s = [t \<leftarrow> map spec_trim (spec_tokens s). t \<noteq> []]"

subsection \<open>Values\<close>

text \<open>
  The values of the settings tree and of \<open>json.loads\<close>: \<open>None\<close>, booleans,
  integers, floats, texts, lists and dictionaries with text keys (kept as
  association lists). A float is a rational number, an infinity or a NaN.
\<close>

datatype pyfloat = Finite rat | PosInf | NegInf | NaN

datatype "value" =
    VNone
  | VBool bool
  | VInt int
  | VFloat pyfloat
  | VStr string
  | VList "value list"
  | VDict "(string \<times> value) list"

text \<open>
  Python's \<open>==\<close> on these values. Booleans, integers and floats compare by
  their numeric value (\<open>True == 1 == 1.0\<close>) and a NaN equals nothing; lists are
  equal when they have the same length and equal items; dictionaries are equal
  when each has every key of the other with an equal value; values of
  different kinds are unequal.
\<close>

fun number :: "value \<Rightarrow> pyfloat option" where
  "number (VBool b) = Some (Finite (if b then 1 else 0))"
| "number (VInt n) = Some (Finite (of_int n))"
| "number (VFloat f) = Some f"
| "number _ = None"

function (sequential) py_eq :: "value \<Rightarrow> value \<Rightarrow> bool"
  and py_eq_list :: "value list \<Rightarrow> value list \<Rightarrow> bool"
  and dict_sub :: "(string \<times> value) list \<Rightarrow> (string \<times> value) list \<Rightarrow> bool"
  and dict_has :: "string \<Rightarrow> value \<Rightarrow> (string \<times> value) list \<Rightarrow> bool" where
  "py_eq VNone w = (w = VNone)"
| "py_eq (VStr s) w = (w = VStr s)"
| "py_eq (VList xs) w = (case w of VList ys \<Rightarrow> py_eq_list xs ys | _ \<Rightarrow> False)"
| "py_eq (VDict a) w = (case w of VDict b \<Rightarrow> dict_sub a b \<and> dict_sub b a | _ \<Rightarrow> False)"
| "py_eq v w =
     (case (number v, number w) of
        (Some x, Some y) \<Rightarrow> x = y \<and> x \<noteq> NaN
      | _ \<Rightarrow> False)"
| "py_eq_list [] ys = (ys = [])"
| "py_eq_list (x # xs) ys =
     (case ys of [] \<Rightarrow> False | y # ys' \<Rightarrow> py_eq x y \<and> py_eq_list xs ys')"
| "dict_sub [] b = True"
| "dict_sub ((k, v) # a) b = (dict_has k v b \<and> dict_sub a b)"
| "dict_has k v [] = False"
| "dict_has k v ((k', v') # b) = (if k' = k then py_eq v v' else dict_has k v b)"
  by pat_completeness auto
termination
  by (relation "measure (\<lambda>x. case x of
        Inl (Inl (v, w)) \<Rightarrow> size v + size w
      | Inl (Inr (xs, ys)) \<Rightarrow> size_list size xs + size_list size ys
      | Inr (Inl (a, b)) \<Rightarrow>
          size_list (size_prod (\<lambda>_. 0) size) a + size_list (size_prod (\<lambda>_. 0) size) b
      | Inr (Inr (k, v, b)) \<Rightarrow> size v + size_list (size_prod (\<lambda>_. 0) size) b)")
     auto

subsection \<open>The list methods the commands call\<close>

text \<open>
  Exceptions that leave a command: \<open>OverflowError\<close> from \<open>list.insert\<close> and
  \<open>ValueError\<close> from \<open>list.remove\<close>.
\<close>

datatype error = OverflowError | ValueError

text \<open>
  \<open>value in current\<close> compares \<open>value\<close> with the items from the left and stops at
  the first equal one.
\<close>

fun list_contains :: "value list \<Rightarrow> value \<Rightarrow> bool" where
  "list_contains [] v = False"
| "list_contains (x # xs) v = (if py_eq v x then True else list_contains xs v)"

text \<open>\<open>current.append(value)\<close>.\<close>

definition list_append :: "value list \<Rightarrow> value \<Rightarrow> value list" where
  "list_append xs v = xs @ [v]"

text \<open>
  \<open>current.insert(index, value)\<close>. The index is converted to the machine type
  \<open>Py_ssize_t\<close>, whose largest value is \<open>maxsize\<close> (\<open>sys.maxsize\<close>); an index
  outside \<open>-maxsize - 1 .. maxsize\<close> raises \<open>OverflowError\<close>. Then, with \<open>n\<close> the
  length: a negative index has \<open>n\<close> added and becomes 0 if it is still
  negative, an index above \<open>n\<close> becomes \<open>n\<close>, and the value is put at that
  position with the items from there on moved up by one.
\<close>

definition list_insert :: "int \<Rightarrow> value list \<Rightarrow> int \<Rightarrow> value \<Rightarrow> error + value list" where
  "list_insert maxsize xs index v =
     (if index < - maxsize - 1 \<or> maxsize < index then Inl OverflowError
      else
        let n = int (length xs);
            where1 = (if index < 0 then (if index + n < 0 then 0 else index + n) else index);
            where2 = (if n < where1 then n else where1)
        in Inr (take (nat where2) xs @ [v] @ drop (nat where2) xs))"

text \<open>
  \<open>current.remove(value)\<close> deletes the first item equal to \<open>value\<close> and raises
  \<open>ValueError\<close> when there is none.
\<close>

fun list_remove :: "value list \<Rightarrow> value \<Rightarrow> error + value list" where
  "list_remove [] v = Inl ValueError"
| "list_remove (x # xs) v =
     (if py_eq x v then Inr xs
      else (case list_remove xs v of Inl e \<Rightarrow> Inl e | Inr ys \<Rightarrow> Inr (x # ys)))"

subsection \<open>The settings object, the library and the process\<close>

text \<open>
  The settings object \<open>obj.settings\<close> is created by \<open>init_settings\<close>, outside this
  module. It is a parameter here: a state of any type \<open>'s\<close> and the six methods
  the module calls, each a function on that state. The flag of \<open>get\<close> tells
  whether the call passes \<open>merged=True\<close>. A method sees the state and its
  arguments, it returns, and what it does to the state is not constrained;
  the list that \<open>get\<close> hands to a command is a value of its own.
\<close>

record 's settings =
  get :: "path \<Rightarrow> bool \<Rightarrow> 's \<Rightarrow> value \<times> 's"
  set' :: "path \<Rightarrow> value \<Rightarrow> 's \<Rightarrow> 's"
  setBoolean :: "path \<Rightarrow> value \<Rightarrow> 's \<Rightarrow> 's"
  setFloat :: "path \<Rightarrow> value \<Rightarrow> 's \<Rightarrow> 's"
  setInt :: "path \<Rightarrow> value \<Rightarrow> 's \<Rightarrow> 's"
  save :: "'s \<Rightarrow> 's"

text \<open>
  The library functions the module calls are parameters as well: \<open>json.loads\<close>
  (\<open>Inl\<close> carries the \<open>message\<close> of the exception it raises), \<open>json.dumps\<close>,
  \<open>yaml.safe_dump\<close> with the keyword arguments of \<open>get_command\<close>,
  \<open>pprint.pformat\<close>, and the platform's \<open>sys.maxsize\<close>.
\<close>

record library =
  loads :: "string \<Rightarrow> string + value"
  dumps :: "value \<Rightarrow> string"
  safe_dump :: "value \<Rightarrow> string"
  pformat :: "value \<Rightarrow> string"
  maxsize :: int

text \<open>
  What a command changes: the state of the settings object and the two output
  streams, each the list of the objects echoed so far.
\<close>

record 's process =
  settings :: 's
  stdout :: "value list"
  stderr :: "value list"

text \<open>
  How a command ends: it returns, it leaves through \<open>ctx.exit(code)\<close>, or an
  exception propagates out of it.
\<close>

datatype outcome = Returned | Exit int | Raised error

definition echo :: "value \<Rightarrow> bool \<Rightarrow> 's process \<Rightarrow> 's process" where
  "echo message err w =
     (if err then w\<lparr>stderr := stderr w @ [message]\<rparr>
      else w\<lparr>stdout := stdout w @ [message]\<rparr>)"

subsection \<open>\<open>_set_helper\<close>\<close>

text \<open>
  \<open>data_type\<close> is \<open>None\<close> or a type object; the code compares it with \<open>bool\<close>,
  \<open>float\<close> and \<open>int\<close> in this order and keeps \<open>settings.set\<close> for any other.
\<close>

datatype data_type = T_bool | T_float | T_int | T_other

definition set_helper ::
  "'s settings \<Rightarrow> path \<Rightarrow> value \<Rightarrow> data_type option \<Rightarrow> 's \<Rightarrow> 's" where
  "set_helper S path v data_type s =
     (let path = to_settings_path path;
          method = set' S;
          method =
            (case data_type of
               None \<Rightarrow> method
             | Some t \<Rightarrow>
                 (let name = (if t = T_bool then Some (setBoolean S)
                              else if t = T_float then Some (setFloat S)
                              else if t = T_int then Some (setInt S)
                              else None)
                  in case name of None \<Rightarrow> method | Some m \<Rightarrow> m));
          s = method path v s
      in save S s)"

subsection \<open>The commands\<close>

text \<open>
  Every command takes the library, the settings object, its click arguments
  and options, and the process; it gives back how it ended and the process it
  left. The \<open>path\<close> and \<open>value\<close> arguments are click \<open>STRING\<close>s, \<open>index\<close> is a click
  \<open>INT\<close>, the options are flags.
\<close>

definition set_command ::
  "library \<Rightarrow> 's settings \<Rightarrow> string \<Rightarrow> string \<Rightarrow> bool \<Rightarrow> bool \<Rightarrow> bool \<Rightarrow> bool \<Rightarrow>
   's process \<Rightarrow> outcome \<times> 's process" where
  "set_command L S path val as_bool as_float as_int as_json w =
     (case (if as_json then loads L val else Inr (VStr val)) of
        Inl message \<Rightarrow> (Exit (- 1), echo (VStr message) True w)
      | Inr v \<Rightarrow>
          (let data_type =
                 (if as_bool then Some T_bool
                  else if as_float then Some T_float
                  else if as_int then Some T_int
                  else None)
           in (Returned,
               w\<lparr>settings := set_helper S (PathStr path) v data_type (settings w)\<rparr>)))"

definition remove_command :: "'s settings \<Rightarrow> string \<Rightarrow> 's process \<Rightarrow> outcome \<times> 's process" where
  "remove_command S path w =
     (Returned, w\<lparr>settings := set_helper S (PathStr path) VNone None (settings w)\<rparr>)"

definition append_value_command ::
  "library \<Rightarrow> 's settings \<Rightarrow> string \<Rightarrow> string \<Rightarrow> bool \<Rightarrow> 's process \<Rightarrow> outcome \<times> 's process" where
  "append_value_command L S path val as_json w =
     (let path = to_settings_path (PathStr path)
      in case (if as_json then loads L val else Inr (VStr val)) of
           Inl message \<Rightarrow> (Exit (- 1), echo (VStr message) True w)
         | Inr v \<Rightarrow>
             (let (current, s) = get S path False (settings w);
                  w = w\<lparr>settings := s\<rparr>;
                  current = (if current = VNone then VList [] else current)
              in case current of
                   VList xs \<Rightarrow>
                     (let current = VList (list_append xs v)
                      in (Returned, w\<lparr>settings := set_helper S path current None s\<rparr>))
                 | _ \<Rightarrow>
                     (Exit (- 1),
                      echo (VStr ''Cannot append to non-list value at given path'') True w)))"

definition insert_value_command ::
  "library \<Rightarrow> 's settings \<Rightarrow> string \<Rightarrow> int \<Rightarrow> string \<Rightarrow> bool \<Rightarrow> 's process \<Rightarrow>
   outcome \<times> 's process" where
  "insert_value_command L S path index val as_json w =
     (let path = to_settings_path (PathStr path)
      in case (if as_json then loads L val else Inr (VStr val)) of
           Inl message \<Rightarrow> (Exit (- 1), echo (VStr message) True w)
         | Inr v \<Rightarrow>
             (let (current, s) = get S path False (settings w);
                  w = w\<lparr>settings := s\<rparr>;
                  current = (if current = VNone then VList [] else current)
              in case current of
                   VList xs \<Rightarrow>
                     (case list_insert (maxsize L) xs index v of
                        Inl e \<Rightarrow> (Raised e, w)
                      | Inr ys \<Rightarrow>
                          (Returned, w\<lparr>settings := set_helper S path (VList ys) None s\<rparr>))
                 | _ \<Rightarrow>
                     (Exit (- 1),
                      echo (VStr ''Cannot insert into non-list value at given path'') True w)))"

definition remove_value_command ::
  "library \<Rightarrow> 's settings \<Rightarrow> string \<Rightarrow> string \<Rightarrow> bool \<Rightarrow> 's process \<Rightarrow> outcome \<times> 's process" where
  "remove_value_command L S path val as_json w =
     (let path = to_settings_path (PathStr path)
      in case (if as_json then loads L val else Inr (VStr val)) of
           Inl message \<Rightarrow> (Exit (- 1), echo (VStr message) True w)
         | Inr v \<Rightarrow>
             (let (current, s) = get S path False (settings w);
                  w = w\<lparr>settings := s\<rparr>;
                  current = (if current = VNone then VList [] else current)
              in case current of
                   VList xs \<Rightarrow>
                     (if \<not> list_contains xs v
                      then (Exit 0,
                            echo (VStr ''Value is not contained in list at given path'') False w)
                      else (case list_remove xs v of
                              Inl e \<Rightarrow> (Raised e, w)
                            | Inr ys \<Rightarrow>
                                (Returned,
                                 w\<lparr>settings := set_helper S path (VList ys) None s\<rparr>)))
                 | _ \<Rightarrow>
                     (Exit (- 1),
                      echo (VStr ''Cannot remove value from non-list value at given path'')
                        True w)))"

definition get_command ::
  "library \<Rightarrow> 's settings \<Rightarrow> string \<Rightarrow> bool \<Rightarrow> bool \<Rightarrow> bool \<Rightarrow> 's process \<Rightarrow>
   outcome \<times> 's process" where
  "get_command L S path as_json as_yaml as_raw w =
     (let path = to_settings_path (PathStr path);
          (v, s) = get S path True (settings w);
          w = w\<lparr>settings := s\<rparr>;
          output =
            (if as_json then VStr (dumps L v)
             else if as_yaml then VStr (safe_dump L v)
             else if as_raw then v
             else VStr (pformat L v))
      in (Returned, echo output False w))"

text \<open>\<open>isinstance(current, list)\<close>, for the statements below.\<close>

fun isinstance_list :: "value \<Rightarrow> bool" where
  "isinstance_list (VList xs) = True"
| "isinstance_list v = False"

subsection \<open>\<open>set_value\<close> and \<open>remove_path\<close> as the specification words them\<close>

text \<open>
  The specification's coercion kind, its \<open>set_value\<close> (normalise the path, call
  the typed setter of the kind or the generic \<open>set\<close>, then \<open>save\<close>) and its
  \<open>remove_path\<close> (\<open>set_value\<close> with the null value and no coercion), written from
  its sentences.
\<close>

datatype coercion = Coerce_none | Coerce_bool | Coerce_float | Coerce_int

definition spec_set_value ::
  "'s settings \<Rightarrow> string \<Rightarrow> value \<Rightarrow> coercion \<Rightarrow> 's \<Rightarrow> 's" where
  "spec_set_value S p v c s =
     save S
       ((case c of
           Coerce_bool \<Rightarrow> setBoolean S
         | Coerce_float \<Rightarrow> setFloat S
         | Coerce_int \<Rightarrow> setInt S
         | Coerce_none \<Rightarrow> set' S) (PathList (spec_normalize_path p)) v s)"

definition spec_remove_path :: "'s settings \<Rightarrow> string \<Rightarrow> 's \<Rightarrow> 's" where
  "spec_remove_path S p s = spec_set_value S p VNone Coerce_none s"

subsection \<open>A settings object that records its calls\<close>

text \<open>
  For running the commands on concrete inputs: a settings object whose state
  is a table of paths and values together with the list of the calls made so
  far. \<open>get\<close> answers with the first entry of the path in the table, or \<open>None\<close>
  when there is none; every setter puts its argument in front of the table as
  it is; every method appends its call to the list.
\<close>

datatype call =
    Get path bool
  | Set path "value"
  | SetBoolean path "value"
  | SetFloat path "value"
  | SetInt path "value"
  | Save

type_synonym recorded = "(path \<times> value) list \<times> call list"

definition recording_settings :: "recorded settings" where
  "recording_settings =
     \<lparr> get = (\<lambda>p merged (t, calls).
               ((case map_of t p of None \<Rightarrow> VNone | Some v \<Rightarrow> v), (t, calls @ [Get p merged]))),
       set' = (\<lambda>p v (t, calls). ((p, v) # t, calls @ [Set p v])),
       setBoolean = (\<lambda>p v (t, calls). ((p, v) # t, calls @ [SetBoolean p v])),
       setFloat = (\<lambda>p v (t, calls). ((p, v) # t, calls @ [SetFloat p v])),
       setInt = (\<lambda>p v (t, calls). ((p, v) # t, calls @ [SetInt p v])),
       save = (\<lambda>(t, calls). (t, calls @ [Save])) \<rparr>"

text \<open>
  A library for the same purpose: \<open>loads\<close> knows two JSON texts and rejects
  every other with the message of Python 2's \<open>json\<close>; the platform is a 64-bit
  one.
\<close>

definition sample_library :: library where
  "sample_library =
     \<lparr> loads = (\<lambda>s. if s = ''[1, 2]'' then Inr (VList [VInt 1, VInt 2])
                     else if s = ''1.0'' then Inr (VFloat (Finite 1))
                     else Inl ''No JSON object could be decoded''),
       dumps = (\<lambda>v. ''json''),
       safe_dump = (\<lambda>v. ''yaml''),
       pformat = (\<lambda>v. ''pretty''),
       maxsize = 2 ^ 63 - 1 \<rparr>"

definition start :: "(path \<times> value) list \<Rightarrow> recorded process" where
  "start t = \<lparr> settings = (t, []), stdout = [], stderr = [] \<rparr>"

section \<open>Properties\<close>

subsection \<open>Path normalisation\<close>

declare strip_left.simps [simp del] strip_right.simps [simp del]

lemma spec_tokens_ne: "spec_tokens s \<noteq> []"
  by (induction s) (simp_all split: list.splits)

text \<open>
  The tokens of the specification are a split on the dot: joined with dots
  they give the text back, and no token has a dot. Trimming takes white space
  off both ends and leaves a text that neither starts nor ends with white space.
\<close>

lemma spec_tokens_join: "join_tokens (spec_tokens s) = s"
proof (induction s)
  case Nil
  show ?case by simp
next
  case (Cons c cs)
  obtain t ts where ts: "spec_tokens cs = t # ts"
    using spec_tokens_ne [of cs] by (cases "spec_tokens cs") auto
  show ?case
  proof (cases "c = CHR ''.''")
    case True
    with Cons ts show ?thesis by simp
  next
    case False
    with Cons ts show ?thesis by (cases ts) auto
  qed
qed

lemma spec_tokens_no_dot: "t \<in> set (spec_tokens s) \<Longrightarrow> CHR ''.'' \<notin> set t"
proof (induction s arbitrary: t)
  case Nil
  then show ?case by simp
next
  case (Cons c cs)
  obtain u us where us: "spec_tokens cs = u # us"
    using spec_tokens_ne [of cs] by (cases "spec_tokens cs") auto
  show ?case
  proof (cases "c = CHR ''.''")
    case True
    with Cons show ?thesis by auto
  next
    case False
    with Cons.prems us have "t = c # u \<or> t \<in> set us" by auto
    then show ?thesis
      using Cons.IH [of u] Cons.IH [of t] us False by auto
  qed
qed

lemma spec_trim_decomposes:
  "\<exists>a b. t = a @ spec_trim t @ b \<and> (\<forall>c\<in>set a. isspace c) \<and> (\<forall>c\<in>set b. isspace c)"
proof -
  let ?a = "takeWhile isspace t"
  let ?m = "dropWhile isspace t"
  let ?b = "rev (takeWhile isspace (rev ?m))"
  have "?m = spec_trim t @ ?b"
    unfolding spec_trim_def
    by (metis rev_append rev_rev_ident takeWhile_dropWhile_id)
  then have "t = ?a @ spec_trim t @ ?b" by (metis takeWhile_dropWhile_id)
  moreover have "\<forall>c\<in>set ?a. isspace c" by (auto dest: set_takeWhileD)
  moreover have "\<forall>c\<in>set ?b. isspace c" by (auto dest: set_takeWhileD)
  ultimately show ?thesis by blast
qed

lemma spec_trim_ends:
  "spec_trim t \<noteq> [] \<Longrightarrow> \<not> isspace (hd (spec_trim t)) \<and> \<not> isspace (last (spec_trim t))"
proof -
  assume ne: "spec_trim t \<noteq> []"
  let ?m = "dropWhile isspace t"
  let ?r = "dropWhile isspace (rev ?m)"
  have r: "?r \<noteq> []" using ne by (simp add: spec_trim_def)
  then have l: "\<not> isspace (hd ?r)" by (rule hd_dropWhile)
  have last: "last (spec_trim t) = hd ?r" using r by (simp add: spec_trim_def last_rev)
  have m: "?m \<noteq> []"
  proof
    assume "?m = []"
    with r show False by simp
  qed
  then have h: "\<not> isspace (hd ?m)" by (rule hd_dropWhile)
  have "hd (spec_trim t) = last ?r" using r by (simp add: spec_trim_def hd_rev)
  also have "last ?r = last (rev ?m)"
    using r by (metis last_appendR takeWhile_dropWhile_id)
  also have "\<dots> = hd ?m" using m by (simp add: last_rev)
  finally show ?thesis using h l last by simp
qed

lemma split_scan_eq:
  "split_scan (CHR ''.'') tok s = (tok @ hd (spec_tokens s)) # tl (spec_tokens s)"
proof (induction s arbitrary: tok)
  case Nil
  then show ?case by simp
next
  case (Cons c cs)
  show ?case
  proof (cases "c = CHR ''.''")
    case True
    then show ?thesis using Cons[of "[]"] spec_tokens_ne[of cs] by simp
  next
    case False
    obtain t ts where ts: "spec_tokens cs = t # ts"
      using spec_tokens_ne[of cs] by (cases "spec_tokens cs") auto
    show ?thesis using False Cons[of "tok @ [c]"] ts by simp
  qed
qed

lemma split_eq: "split s (CHR ''.'') = spec_tokens s"
  using spec_tokens_ne[of s] by (simp add: split_def split_scan_eq)

lemma strip_left_takeWhile:
  "i \<le> length s \<Longrightarrow> strip_left s i = i + length (takeWhile isspace (drop i s))"
proof (induction s i rule: strip_left.induct)
  case (1 s i)
  show ?case
  proof (cases "i < length s")
    case True
    then have d: "drop i s = s ! i # drop (Suc i) s"
      by (simp add: Cons_nth_drop_Suc)
    show ?thesis
    proof (cases "isspace (s ! i)")
      case True
      with \<open>i < length s\<close> 1 d show ?thesis
        by (subst strip_left.simps) simp
    next
      case False
      with d show ?thesis by (subst strip_left.simps) simp
    qed
  next
    case False
    with 1(2) show ?thesis by (subst strip_left.simps) simp
  qed
qed

lemma take_diff_snoc:
  assumes "i < j" "j \<le> length s"
  shows "take (j - i) (drop i s) = take (j - 1 - i) (drop i s) @ [s ! (j - 1)]"
proof -
  from assms have k: "j - 1 - i < length (drop i s)" by simp
  from assms have "j - i = Suc (j - 1 - i)" by simp
  then have "take (j - i) (drop i s) = take (Suc (j - 1 - i)) (drop i s)" by simp
  also have "\<dots> = take (j - 1 - i) (drop i s) @ [drop i s ! (j - 1 - i)]"
    using k by (rule take_Suc_conv_app_nth)
  also have "drop i s ! (j - 1 - i) = s ! (j - 1)"
    using assms by simp
  finally show ?thesis .
qed

lemma strip_right_dropWhile:
  "i \<le> j \<Longrightarrow> j \<le> length s \<Longrightarrow>
   i \<le> strip_right s i j \<and>
   take (strip_right s i j - i) (drop i s) =
     rev (dropWhile isspace (rev (take (j - i) (drop i s))))"
proof (induction s i j rule: strip_right.induct)
  case (1 s i j)
  show ?case
  proof (cases "i < j")
    case True
    note snoc = take_diff_snoc[OF True 1(3)]
    show ?thesis
    proof (cases "isspace (s ! (j - 1))")
      case True
      with \<open>i < j\<close> 1 have ih: "i \<le> strip_right s i (j - 1) \<and>
        take (strip_right s i (j - 1) - i) (drop i s) =
        rev (dropWhile isspace (rev (take (j - 1 - i) (drop i s))))" by simp
      have eq: "strip_right s i j = strip_right s i (j - 1)"
        using True \<open>i < j\<close> by (subst strip_right.simps) simp
      show ?thesis unfolding eq using ih True by (simp add: snoc)
    next
      case False
      then have eq: "strip_right s i j = j" by (subst strip_right.simps) simp
      show ?thesis unfolding eq using False 1(2)
        by (simp add: snoc)
    qed
  next
    case False
    with 1(2) have "i = j" by simp
    then show ?thesis by (subst (1 2) strip_right.simps) simp
  qed
qed

lemma strip_eq_spec_trim: "strip s = spec_trim s"
proof -
  let ?i = "length (takeWhile isspace s)"
  have i: "strip_left s 0 = ?i" using strip_left_takeWhile[of 0 s] by simp
  have d: "drop ?i s = dropWhile isspace s" by (simp add: dropWhile_eq_drop)
  have le: "?i \<le> length s" by (rule length_takeWhile_le)
  have "length (drop ?i s) = length s - ?i" by simp
  then have full: "take (length s - ?i) (drop ?i s) = drop ?i s" by simp
  have "take (strip_right s ?i (length s) - ?i) (drop ?i s) =
        rev (dropWhile isspace (rev (take (length s - ?i) (drop ?i s))))"
    using strip_right_dropWhile[OF le, of s] by simp
  also have "\<dots> = rev (dropWhile isspace (rev (drop ?i s)))"
    by (simp only: full)
  finally have "take (strip_right s ?i (length s) - ?i) (drop ?i s) = spec_trim s"
    by (simp only: d spec_trim_def)
  then show ?thesis
    by (simp add: strip_def i Let_def)
qed


lemma to_settings_path_spec:
  "to_settings_path (PathStr s) = PathList (spec_normalize_path s)"
proof -
  have "strip = spec_trim"
    by (rule ext) (rule strip_eq_spec_trim)
  then show ?thesis
    by (simp add: split_eq spec_normalize_path_def)
qed

text \<open>
  C1. For a text \<open>s\<close>, \<open>_to_settings_path\<close> returns the list of the segments got
  by splitting \<open>s\<close> on the dot, trimming the white space of each token and
  dropping the tokens that become empty, in their order; a list or a tuple is
  returned as it is.
\<close>

theorem to_settings_path_normalizes:
  "to_settings_path (PathStr s) = PathList (spec_normalize_path s) \<and>
   to_settings_path (PathList xs) = PathList xs \<and>
   to_settings_path (PathTuple xs) = PathTuple xs"
  by (intro conjI to_settings_path_spec to_settings_path.simps(2) to_settings_path.simps(3))

theorem to_settings_path_normalizes_witness:
  "to_settings_path (PathStr '' a . b..c '') = PathList [''a'', ''b'', ''c''] \<and>
   to_settings_path (PathList ['' a '', [], ''b'']) = PathList ['' a '', [], ''b''] \<and>
   to_settings_path (PathTuple ['' a '', [], ''b'']) = PathTuple ['' a '', [], ''b'']"
proof -
  have "spec_normalize_path '' a . b..c '' = [''a'', ''b'', ''c'']"
    by (simp add: spec_normalize_path_def spec_trim_def isspace_def)
  then show ?thesis
    using to_settings_path_normalizes [of "'' a . b..c ''" "['' a '', [], ''b'']"]
    by simp
qed

subsection \<open>Equality of values is symmetric\<close>

lemma py_eq_list_sym:
  assumes "\<And>x w. x \<in> set xs \<Longrightarrow> py_eq x w = py_eq w x"
  shows "py_eq_list xs ys = py_eq_list ys xs"
  using assms
proof (induction xs arbitrary: ys)
  case Nil
  then show ?case by (cases ys) auto
next
  case (Cons x xs)
  show ?case
  proof (cases ys)
    case Nil
    then show ?thesis by simp
  next
    case ys: (Cons y ys')
    have tl: "py_eq_list xs ys' = py_eq_list ys' xs"
    proof (rule Cons.IH)
      fix x' w assume "x' \<in> set xs"
      then have "x' \<in> set (x # xs)" by simp
      then show "py_eq x' w = py_eq w x'" by (rule Cons.prems)
    qed
    have hd: "py_eq x y = py_eq y x" by (rule Cons.prems) simp
    show ?thesis unfolding ys using hd tl by simp
  qed
qed

lemma py_eq_sym: "py_eq v w = py_eq w v"
proof (induction v arbitrary: w)
  case VNone
  show ?case by (cases w) auto
next
  case (VBool b)
  show ?case by (cases w) (auto split: option.splits)
next
  case (VInt n)
  show ?case by (cases w) (auto split: option.splits)
next
  case (VFloat f)
  show ?case by (cases w) (auto split: option.splits)
next
  case (VStr s)
  show ?case by (cases w) auto
next
  case (VList xs)
  show ?case
  proof (cases w)
    case w: (VList ys)
    have "py_eq_list xs ys = py_eq_list ys xs"
      by (rule py_eq_list_sym) (rule VList.IH)
    then show ?thesis unfolding w by simp
  qed auto
next
  case (VDict a)
  show ?case by (cases w) auto
qed

subsection \<open>\<open>_set_helper\<close>\<close>

lemma to_settings_path_idem: "to_settings_path (to_settings_path p) = to_settings_path p"
  by (cases p) simp_all

declare to_settings_path.simps(1) [simp del]

lemma set_helper_None:
  "set_helper S p v None s = save S (set' S (to_settings_path p) v s)"
  by (simp add: set_helper_def)

lemma set_helper_Some:
  "set_helper S p v (Some t) s =
     save S ((case t of
                T_bool \<Rightarrow> setBoolean S
              | T_float \<Rightarrow> setFloat S
              | T_int \<Rightarrow> setInt S
              | T_other \<Rightarrow> set' S) (to_settings_path p) v s)"
  by (cases t) (simp_all add: set_helper_def)

lemma recording_simps:
  "get recording_settings p m (t, calls) =
     ((case map_of t p of None \<Rightarrow> VNone | Some v \<Rightarrow> v), (t, calls @ [Get p m]))"
  "set' recording_settings p v (t, calls) = ((p, v) # t, calls @ [Set p v])"
  "setBoolean recording_settings p v (t, calls) = ((p, v) # t, calls @ [SetBoolean p v])"
  "setFloat recording_settings p v (t, calls) = ((p, v) # t, calls @ [SetFloat p v])"
  "setInt recording_settings p v (t, calls) = ((p, v) # t, calls @ [SetInt p v])"
  "save recording_settings (t, calls) = (t, calls @ [Save])"
  by (simp_all add: recording_settings_def)

lemma sample_path: "to_settings_path (PathStr ''serial.port'') = PathList [''serial'', ''port'']"
  unfolding to_settings_path_spec
  by (simp add: spec_normalize_path_def spec_trim_def isspace_def)

text \<open>
  C6. \<open>_set_helper\<close> calls \<open>setBoolean\<close>, \<open>setFloat\<close> or \<open>setInt\<close> with the path and
  the value when \<open>data_type\<close> is \<open>bool\<close>, \<open>float\<close> or \<open>int\<close>, and the generic \<open>set\<close>
  when it is \<open>None\<close>; the settings are saved after the setter in every case.
\<close>

theorem set_helper_dispatch:
  "set_helper S p v (Some T_bool) s = save S (setBoolean S (to_settings_path p) v s) \<and>
   set_helper S p v (Some T_float) s = save S (setFloat S (to_settings_path p) v s) \<and>
   set_helper S p v (Some T_int) s = save S (setInt S (to_settings_path p) v s) \<and>
   set_helper S p v None s = save S (set' S (to_settings_path p) v s)"
  by (simp add: set_helper_None set_helper_Some)

theorem set_helper_dispatch_witness:
  "set_helper recording_settings (PathStr ''serial.port'') (VStr ''1'') (Some T_bool) ([], []) =
     ([(PathList [''serial'', ''port''], VStr ''1'')],
      [SetBoolean (PathList [''serial'', ''port'']) (VStr ''1''), Save]) \<and>
   set_helper recording_settings (PathStr ''serial.port'') (VStr ''1'') (Some T_float) ([], []) =
     ([(PathList [''serial'', ''port''], VStr ''1'')],
      [SetFloat (PathList [''serial'', ''port'']) (VStr ''1''), Save]) \<and>
   set_helper recording_settings (PathStr ''serial.port'') (VStr ''1'') (Some T_int) ([], []) =
     ([(PathList [''serial'', ''port''], VStr ''1'')],
      [SetInt (PathList [''serial'', ''port'']) (VStr ''1''), Save]) \<and>
   set_helper recording_settings (PathStr ''serial.port'') (VStr ''1'') None ([], []) =
     ([(PathList [''serial'', ''port''], VStr ''1'')],
      [Set (PathList [''serial'', ''port'']) (VStr ''1''), Save])"
  using set_helper_dispatch [of recording_settings "PathStr ''serial.port''" "VStr ''1''" "([], [])"]
  by (simp only: sample_path recording_simps append_Nil append_Cons)

subsection \<open>The \<open>set\<close>, \<open>remove\<close> and \<open>get\<close> commands\<close>

lemma set_command_parsed:
  assumes "(if as_json then loads L val else Inr (VStr val)) = Inr v"
  shows "set_command L S path val as_bool as_float as_int as_json w =
           (Returned,
            w\<lparr>settings :=
                set_helper S (PathStr path) v
                  (if as_bool then Some T_bool
                   else if as_float then Some T_float
                   else if as_int then Some T_int
                   else None) (settings w)\<rparr>)"
  using assms by (simp add: set_command_def)

lemma sample_parsed:
  "(if False then loads sample_library val else Inr (VStr val)) = Inr (VStr val)"
  "(if True then loads sample_library ''[1, 2]'' else Inr (VStr ''[1, 2]'')) =
     Inr (VList [VInt 1, VInt 2])"
  "(if True then loads sample_library ''1.0'' else Inr (VStr ''1.0'')) = Inr (VFloat (Finite 1))"
  "loads sample_library ''{'' = Inl ''No JSON object could be decoded''"
  by (simp_all add: sample_library_def)

text \<open>
  C10. When the \<open>set\<close> command is given several of \<open>--bool\<close>, \<open>--float\<close> and
  \<open>--int\<close>, \<open>--bool\<close> wins over \<open>--float\<close> and \<open>--float\<close> over \<open>--int\<close>: the one
  typed setter of the winning flag is called, whatever the other flags are,
  and the command returns.
\<close>

theorem set_command_flag_precedence:
  assumes "(if as_json then loads L val else Inr (VStr val)) = Inr v"
  shows "set_command L S path val True as_float as_int as_json w =
           (Returned,
            w\<lparr>settings :=
                save S (setBoolean S (to_settings_path (PathStr path)) v (settings w))\<rparr>) \<and>
         set_command L S path val False True as_int as_json w =
           (Returned,
            w\<lparr>settings :=
                save S (setFloat S (to_settings_path (PathStr path)) v (settings w))\<rparr>) \<and>
         set_command L S path val False False True as_json w =
           (Returned,
            w\<lparr>settings :=
                save S (setInt S (to_settings_path (PathStr path)) v (settings w))\<rparr>) \<and>
         set_command L S path val False False False as_json w =
           (Returned,
            w\<lparr>settings :=
                save S (set' S (to_settings_path (PathStr path)) v (settings w))\<rparr>)"
  by (simp add: set_command_parsed [OF assms] set_helper_None set_helper_Some)

theorem set_command_flag_precedence_witness:
  "(if False then loads sample_library ''42'' else Inr (VStr ''42'')) = Inr (VStr ''42'') \<and>
   set_command sample_library recording_settings ''serial.port'' ''42'' True True True False
       (start []) =
     (Returned,
      \<lparr>settings = ([(PathList [''serial'', ''port''], VStr ''42'')],
                   [SetBoolean (PathList [''serial'', ''port'']) (VStr ''42''), Save]),
       stdout = [], stderr = []\<rparr>) \<and>
   set_command sample_library recording_settings ''serial.port'' ''42'' False True True False
       (start []) =
     (Returned,
      \<lparr>settings = ([(PathList [''serial'', ''port''], VStr ''42'')],
                   [SetFloat (PathList [''serial'', ''port'']) (VStr ''42''), Save]),
       stdout = [], stderr = []\<rparr>) \<and>
   set_command sample_library recording_settings ''serial.port'' ''42'' False False True False
       (start []) =
     (Returned,
      \<lparr>settings = ([(PathList [''serial'', ''port''], VStr ''42'')],
                   [SetInt (PathList [''serial'', ''port'']) (VStr ''42''), Save]),
       stdout = [], stderr = []\<rparr>) \<and>
   set_command sample_library recording_settings ''serial.port'' ''42'' False False False False
       (start []) =
     (Returned,
      \<lparr>settings = ([(PathList [''serial'', ''port''], VStr ''42'')],
                   [Set (PathList [''serial'', ''port'']) (VStr ''42''), Save]),
       stdout = [], stderr = []\<rparr>)"
  using set_command_flag_precedence [OF sample_parsed(1),
      where S = recording_settings and path = "''serial.port''" and val = "''42''"
        and as_float = True and as_int = True and w = "start []"]
  by (simp add: sample_path recording_simps start_def)

text \<open>
  C8. The \<open>remove\<close> command does what the specification's \<open>set_value\<close> does with
  the null value and no coercion: it normalises the path, calls the generic
  \<open>set\<close> with \<open>None\<close> and saves.
\<close>

theorem remove_command_is_set_value_None:
  "remove_command S path w = (Returned, w\<lparr>settings := spec_remove_path S path (settings w)\<rparr>) \<and>
   spec_remove_path S path (settings w) = spec_set_value S path VNone Coerce_none (settings w) \<and>
   spec_set_value S path VNone Coerce_none (settings w) =
     save S (set' S (to_settings_path (PathStr path)) VNone (settings w)) \<and>
   set_helper S (PathStr path) VNone None (settings w) =
     spec_set_value S path VNone Coerce_none (settings w)"
  by (simp add: remove_command_def spec_remove_path_def spec_set_value_def set_helper_None
        to_settings_path_spec)

theorem remove_command_is_set_value_None_witness:
  "remove_command recording_settings ''serial.port'' (start []) =
     (Returned,
      \<lparr>settings = ([(PathList [''serial'', ''port''], VNone)],
                   [Set (PathList [''serial'', ''port'']) VNone, Save]),
       stdout = [], stderr = []\<rparr>)"
  using remove_command_is_set_value_None [of recording_settings "''serial.port''" "start []"]
  by (simp add: sample_path recording_simps start_def)

text \<open>
  C9. The \<open>get\<close> command changes nothing: in every output format its one call
  on the settings object is \<open>get\<close> with \<open>merged=True\<close>; it calls no setter and
  not \<open>save\<close>, so the settings are left as that \<open>get\<close> left them, and the
  formatted value is echoed.
\<close>

theorem get_command_reads_only:
  assumes "get S (to_settings_path (PathStr path)) True (settings w) = (v, s)"
  shows "get_command L S path as_json as_yaml as_raw w =
           (Returned,
            w\<lparr>settings := s,
              stdout := stdout w @
                [if as_json then VStr (dumps L v)
                 else if as_yaml then VStr (safe_dump L v)
                 else if as_raw then v
                 else VStr (pformat L v)]\<rparr>)"
  using assms by (simp add: get_command_def echo_def)

theorem get_command_reads_only_witness:
  "get recording_settings (to_settings_path (PathStr ''serial.port'')) True
       (settings (start [(PathList [''serial'', ''port''], VInt 42)])) =
     (VInt 42, ([(PathList [''serial'', ''port''], VInt 42)], [Get (PathList [''serial'', ''port'']) True])) \<and>
   get_command sample_library recording_settings ''serial.port'' True False False
       (start [(PathList [''serial'', ''port''], VInt 42)]) =
     (Returned,
      \<lparr>settings = ([(PathList [''serial'', ''port''], VInt 42)], [Get (PathList [''serial'', ''port'']) True]),
       stdout = [VStr ''json''], stderr = []\<rparr>) \<and>
   get_command sample_library recording_settings ''serial.port'' False False True
       (start [(PathList [''serial'', ''port''], VInt 42)]) =
     (Returned,
      \<lparr>settings = ([(PathList [''serial'', ''port''], VInt 42)], [Get (PathList [''serial'', ''port'']) True]),
       stdout = [VInt 42], stderr = []\<rparr>)"
proof -
  have g: "get recording_settings (to_settings_path (PathStr ''serial.port'')) True
             (settings (start [(PathList [''serial'', ''port''], VInt 42)])) =
           (VInt 42, ([(PathList [''serial'', ''port''], VInt 42)], [Get (PathList [''serial'', ''port'']) True]))"
    by (simp add: sample_path recording_simps start_def)
  show ?thesis
    using g
      get_command_reads_only [OF g, where L = sample_library and as_json = True
        and as_yaml = False and as_raw = False]
      get_command_reads_only [OF g, where L = sample_library and as_json = False
        and as_yaml = False and as_raw = True]
    by (simp add: start_def sample_library_def)
qed

subsection \<open>The list commands\<close>

lemma echo_err: "echo m True w = w\<lparr>stderr := stderr w @ [m]\<rparr>"
  by (simp add: echo_def)

lemma echo_out: "echo m False w = w\<lparr>stdout := stdout w @ [m]\<rparr>"
  by (simp add: echo_def)

lemma not_list_cases:
  assumes "current \<noteq> VNone" "\<not> isinstance_list current"
  shows "(case (if current = VNone then VList [] else current) of VList xs \<Rightarrow> f xs | _ \<Rightarrow> g) = g"
  using assms by (cases current) simp_all

lemma append_value_command_list:
  assumes "(if as_json then loads L val else Inr (VStr val)) = Inr v"
    and "get S (to_settings_path (PathStr path)) False (settings w) = (current, s)"
    and "current = VNone \<and> xs = [] \<or> current = VList xs"
  shows "append_value_command L S path val as_json w =
           (Returned,
            w\<lparr>settings :=
                save S (set' S (to_settings_path (PathStr path)) (VList (xs @ [v])) s)\<rparr>)"
  using assms
  by (auto simp add: append_value_command_def Let_def list_append_def set_helper_None to_settings_path_idem)

lemma insert_value_command_list:
  assumes "(if as_json then loads L val else Inr (VStr val)) = Inr v"
    and "get S (to_settings_path (PathStr path)) False (settings w) = (current, s)"
    and "current = VNone \<and> xs = [] \<or> current = VList xs"
  shows "insert_value_command L S path index val as_json w =
           (case list_insert (maxsize L) xs index v of
              Inl e \<Rightarrow> (Raised e, w\<lparr>settings := s\<rparr>)
            | Inr ys \<Rightarrow>
                (Returned,
                 w\<lparr>settings :=
                     save S (set' S (to_settings_path (PathStr path)) (VList ys) s)\<rparr>))"
  using assms
  by (auto simp add: insert_value_command_def Let_def set_helper_None to_settings_path_idem split: sum.splits)

lemma remove_value_command_list:
  assumes "(if as_json then loads L val else Inr (VStr val)) = Inr v"
    and "get S (to_settings_path (PathStr path)) False (settings w) = (current, s)"
    and "current = VNone \<and> xs = [] \<or> current = VList xs"
  shows "remove_value_command L S path val as_json w =
           (if \<not> list_contains xs v
            then (Exit 0,
                  w\<lparr>settings := s,
                    stdout := stdout w @ [VStr ''Value is not contained in list at given path'']\<rparr>)
            else (case list_remove xs v of
                    Inl e \<Rightarrow> (Raised e, w\<lparr>settings := s\<rparr>)
                  | Inr ys \<Rightarrow>
                      (Returned,
                       w\<lparr>settings :=
                           save S (set' S (to_settings_path (PathStr path)) (VList ys) s)\<rparr>)))"
  using assms
  by (auto simp add: remove_value_command_def Let_def set_helper_None echo_out to_settings_path_idem split: sum.splits)

text \<open>
  C7. With \<open>--json\<close> and a value argument that \<open>json.loads\<close> rejects, each of
  \<open>set\<close>, \<open>append_value\<close>, \<open>insert_value\<close> and \<open>remove_value\<close> echoes the message
  of the exception to the error stream and leaves with status -1; nothing
  else changes: no method of the settings object has been called.
\<close>

theorem json_parse_failure_aborts:
  assumes "loads L val = Inl message"
  shows "set_command L S path val as_bool as_float as_int True w =
           (Exit (- 1), w\<lparr>stderr := stderr w @ [VStr message]\<rparr>) \<and>
         append_value_command L S path val True w =
           (Exit (- 1), w\<lparr>stderr := stderr w @ [VStr message]\<rparr>) \<and>
         insert_value_command L S path index val True w =
           (Exit (- 1), w\<lparr>stderr := stderr w @ [VStr message]\<rparr>) \<and>
         remove_value_command L S path val True w =
           (Exit (- 1), w\<lparr>stderr := stderr w @ [VStr message]\<rparr>)"
  using assms
  by (simp add: set_command_def append_value_command_def insert_value_command_def
        remove_value_command_def echo_err)

theorem json_parse_failure_aborts_witness:
  "loads sample_library ''{'' = Inl ''No JSON object could be decoded'' \<and>
   set_command sample_library recording_settings ''serial.port'' ''{'' True False True True
       (start []) =
     (Exit (- 1),
      \<lparr>settings = ([], []), stdout = [],
       stderr = [VStr ''No JSON object could be decoded'']\<rparr>) \<and>
   append_value_command sample_library recording_settings ''serial.port'' ''{'' True (start []) =
     (Exit (- 1),
      \<lparr>settings = ([], []), stdout = [],
       stderr = [VStr ''No JSON object could be decoded'']\<rparr>) \<and>
   insert_value_command sample_library recording_settings ''serial.port'' 0 ''{'' True
       (start []) =
     (Exit (- 1),
      \<lparr>settings = ([], []), stdout = [],
       stderr = [VStr ''No JSON object could be decoded'']\<rparr>) \<and>
   remove_value_command sample_library recording_settings ''serial.port'' ''{'' True (start []) =
     (Exit (- 1),
      \<lparr>settings = ([], []), stdout = [],
       stderr = [VStr ''No JSON object could be decoded'']\<rparr>)"
  using sample_parsed(4)
    json_parse_failure_aborts [OF sample_parsed(4), where S = recording_settings
      and path = "''serial.port''" and as_bool = True and as_float = False and as_int = True
      and index = 0 and w = "start []"]
  by (simp add: start_def)

text \<open>
  C2. When the value that \<open>get\<close> returns for the path is neither \<open>None\<close> nor a
  list, each of \<open>append_value\<close>, \<open>insert_value\<close> and \<open>remove_value\<close> echoes its
  "non-list value" message to the error stream and leaves with status -1;
  the settings are as that \<open>get\<close> left them: no setter and no \<open>save\<close> has been
  called.
\<close>

theorem list_commands_reject_non_list:
  assumes "(if as_json then loads L val else Inr (VStr val)) = Inr v"
    and "get S (to_settings_path (PathStr path)) False (settings w) = (current, s)"
    and "current \<noteq> VNone"
    and "\<not> isinstance_list current"
  shows "append_value_command L S path val as_json w =
           (Exit (- 1),
            w\<lparr>settings := s,
              stderr := stderr w @ [VStr ''Cannot append to non-list value at given path'']\<rparr>) \<and>
         insert_value_command L S path index val as_json w =
           (Exit (- 1),
            w\<lparr>settings := s,
              stderr := stderr w @ [VStr ''Cannot insert into non-list value at given path'']\<rparr>) \<and>
         remove_value_command L S path val as_json w =
           (Exit (- 1),
            w\<lparr>settings := s,
              stderr := stderr w @
                [VStr ''Cannot remove value from non-list value at given path'']\<rparr>)"
  using assms(1,2)
  by (simp add: append_value_command_def insert_value_command_def remove_value_command_def
        Let_def echo_err not_list_cases [OF assms(3,4)])

theorem list_commands_reject_non_list_witness:
  "(if False then loads sample_library ''x'' else Inr (VStr ''x'')) = Inr (VStr ''x'') \<and>
   get recording_settings (to_settings_path (PathStr ''serial.port'')) False
       (settings (start [(PathList [''serial'', ''port''], VStr ''text'')])) =
     (VStr ''text'', ([(PathList [''serial'', ''port''], VStr ''text'')], [Get (PathList [''serial'', ''port'']) False])) \<and>
   VStr ''text'' \<noteq> VNone \<and>
   \<not> isinstance_list (VStr ''text'') \<and>
   append_value_command sample_library recording_settings ''serial.port'' ''x'' False
       (start [(PathList [''serial'', ''port''], VStr ''text'')]) =
     (Exit (- 1),
      \<lparr>settings = ([(PathList [''serial'', ''port''], VStr ''text'')], [Get (PathList [''serial'', ''port'']) False]),
       stdout = [],
       stderr = [VStr ''Cannot append to non-list value at given path'']\<rparr>) \<and>
   insert_value_command sample_library recording_settings ''serial.port'' 0 ''x'' False
       (start [(PathList [''serial'', ''port''], VStr ''text'')]) =
     (Exit (- 1),
      \<lparr>settings = ([(PathList [''serial'', ''port''], VStr ''text'')], [Get (PathList [''serial'', ''port'']) False]),
       stdout = [],
       stderr = [VStr ''Cannot insert into non-list value at given path'']\<rparr>) \<and>
   remove_value_command sample_library recording_settings ''serial.port'' ''x'' False
       (start [(PathList [''serial'', ''port''], VStr ''text'')]) =
     (Exit (- 1),
      \<lparr>settings = ([(PathList [''serial'', ''port''], VStr ''text'')], [Get (PathList [''serial'', ''port'']) False]),
       stdout = [],
       stderr = [VStr ''Cannot remove value from non-list value at given path'']\<rparr>)"
proof -
  have g: "get recording_settings (to_settings_path (PathStr ''serial.port'')) False
             (settings (start [(PathList [''serial'', ''port''], VStr ''text'')])) =
           (VStr ''text'', ([(PathList [''serial'', ''port''], VStr ''text'')], [Get (PathList [''serial'', ''port'']) False]))"
    by (simp add: sample_path recording_simps start_def)
  have n: "VStr ''text'' \<noteq> VNone" and l: "\<not> isinstance_list (VStr ''text'')"
    by simp_all
  show ?thesis
    using g list_commands_reject_non_list [OF sample_parsed(1) g n l, where index = 0]
    by (simp add: start_def)
qed

subsection \<open>\<open>list.insert\<close>, \<open>in\<close> and \<open>list.remove\<close>\<close>

lemma list_contains_iff: "list_contains xs v \<longleftrightarrow> (\<exists>x\<in>set xs. py_eq x v)"
  by (induction xs) (auto simp: py_eq_sym [of v])

lemma list_remove_first:
  assumes "\<exists>x\<in>set xs. py_eq x v"
  shows "\<exists>ys x zs. xs = ys @ x # zs \<and> (\<forall>y\<in>set ys. \<not> py_eq y v) \<and> py_eq x v \<and>
           list_remove xs v = Inr (ys @ zs)"
  using assms
proof (induction xs)
  case Nil
  then show ?case by simp
next
  case (Cons a xs)
  show ?case
  proof (cases "py_eq a v")
    case True
    then have "a # xs = [] @ a # xs \<and> (\<forall>y\<in>set []. \<not> py_eq y v) \<and> py_eq a v \<and>
               list_remove (a # xs) v = Inr ([] @ xs)"
      by simp
    then show ?thesis by blast
  next
    case False
    with Cons.prems have "\<exists>x\<in>set xs. py_eq x v" by auto
    from Cons.IH [OF this] obtain ys x zs where
      s: "xs = ys @ x # zs" and n: "\<forall>y\<in>set ys. \<not> py_eq y v" and e: "py_eq x v"
      and r: "list_remove xs v = Inr (ys @ zs)"
      by blast
    have "a # xs = (a # ys) @ x # zs \<and> (\<forall>y\<in>set (a # ys). \<not> py_eq y v) \<and> py_eq x v \<and>
          list_remove (a # xs) v = Inr ((a # ys) @ zs)"
      using s n e r False by simp
    then show ?thesis by blast
  qed
qed

lemma list_insert_in_range:
  assumes "- m - 1 \<le> index" "index \<le> m"
  shows "list_insert m xs index v =
           Inr (let k = (if index < 0 then nat (int (length xs) + index)
                         else min (nat index) (length xs))
                in take k xs @ v # drop k xs)"
proof -
  let ?n = "int (length xs)"
  let ?w1 = "if index < 0 then (if index + ?n < 0 then 0 else index + ?n) else index"
  let ?w2 = "if ?n < ?w1 then ?n else ?w1"
  have "nat ?w2 = (if index < 0 then nat (?n + index) else min (nat index) (length xs))"
    by auto
  then show ?thesis
    using assms by (simp add: list_insert_def Let_def)
qed

lemma sample_get:
  "get recording_settings (to_settings_path (PathStr ''serial.port'')) False
     (settings (start t)) =
   ((case map_of t (PathList [''serial'', ''port'']) of None \<Rightarrow> VNone | Some v \<Rightarrow> v),
    (t, [Get (PathList [''serial'', ''port'']) False]))"
  by (simp add: sample_path recording_simps start_def)

text \<open>
  C5. \<open>append_value\<close> takes \<open>None\<close> at the path for the empty list, puts the
  value after the items of the list, and writes the new list with the generic
  \<open>set\<close> (no typed setter) followed by \<open>save\<close>. When the settings object gives
  back at the next \<open>get\<close> the list that was written, a second \<open>append_value\<close>
  writes the list with both values in the order of the calls: from an unset
  path, \<open>v\<close> then \<open>v'\<close> give \<open>[v, v']\<close>.
\<close>

theorem append_value_command_appends:
  assumes "(if as_json then loads L val else Inr (VStr val)) = Inr v"
    and "(if as_json' then loads L val' else Inr (VStr val')) = Inr v'"
    and "get S (to_settings_path (PathStr path)) False (settings w) = (current, s)"
    and "current = VNone \<and> xs = [] \<or> current = VList xs"
  shows "append_value_command L S path val as_json w =
           (Returned,
            w\<lparr>settings :=
                save S (set' S (to_settings_path (PathStr path)) (VList (xs @ [v])) s)\<rparr>) \<and>
         (get S (to_settings_path (PathStr path)) False
              (save S (set' S (to_settings_path (PathStr path)) (VList (xs @ [v])) s)) =
            (VList (xs @ [v]), s') \<longrightarrow>
          append_value_command L S path val' as_json'
              (snd (append_value_command L S path val as_json w)) =
            (Returned,
             w\<lparr>settings :=
                 save S (set' S (to_settings_path (PathStr path)) (VList (xs @ [v, v'])) s')\<rparr>))"
proof -
  let ?p = "to_settings_path (PathStr path)"
  let ?w1 = "w\<lparr>settings := save S (set' S ?p (VList (xs @ [v])) s)\<rparr>"
  have first: "append_value_command L S path val as_json w = (Returned, ?w1)"
    by (rule append_value_command_list [OF assms(1,3,4)])
  have second: "append_value_command L S path val' as_json' ?w1 =
      (Returned, w\<lparr>settings := save S (set' S ?p (VList (xs @ [v, v'])) s')\<rparr>)"
    if g: "get S ?p False (save S (set' S ?p (VList (xs @ [v])) s)) = (VList (xs @ [v]), s')"
  proof -
    have g': "get S ?p False (settings ?w1) = (VList (xs @ [v]), s')"
      using g by simp
    have c: "VList (xs @ [v]) = VNone \<and> xs @ [v] = [] \<or> VList (xs @ [v]) = VList (xs @ [v])"
      by simp
    show ?thesis
      using append_value_command_list [OF assms(2) g' c] by simp
  qed
  show ?thesis
    using first second by simp
qed

theorem append_value_command_appends_witness:
  "(if False then loads sample_library ''a'' else Inr (VStr ''a'')) = Inr (VStr ''a'') \<and>
   (if False then loads sample_library ''b'' else Inr (VStr ''b'')) = Inr (VStr ''b'') \<and>
   get recording_settings (to_settings_path (PathStr ''serial.port'')) False
       (settings (start [])) =
     (VNone, ([], [Get (PathList [''serial'', ''port'']) False])) \<and>
   append_value_command sample_library recording_settings ''serial.port'' ''a'' False
       (start []) =
     (Returned,
      \<lparr>settings =
         ([(PathList [''serial'', ''port''], VList [VStr ''a''])],
          [Get (PathList [''serial'', ''port'']) False,
           Set (PathList [''serial'', ''port'']) (VList [VStr ''a'']), Save]),
       stdout = [], stderr = []\<rparr>) \<and>
   append_value_command sample_library recording_settings ''serial.port'' ''b'' False
       (snd (append_value_command sample_library recording_settings ''serial.port'' ''a'' False
          (start []))) =
     (Returned,
      \<lparr>settings =
         ([(PathList [''serial'', ''port''], VList [VStr ''a'', VStr ''b'']),
           (PathList [''serial'', ''port''], VList [VStr ''a''])],
          [Get (PathList [''serial'', ''port'']) False,
           Set (PathList [''serial'', ''port'']) (VList [VStr ''a'']), Save,
           Get (PathList [''serial'', ''port'']) False,
           Set (PathList [''serial'', ''port'']) (VList [VStr ''a'', VStr ''b'']), Save]),
       stdout = [], stderr = []\<rparr>)"
proof -
  have g: "get recording_settings (to_settings_path (PathStr ''serial.port'')) False
             (settings (start [])) =
           (VNone, ([], [Get (PathList [''serial'', ''port'']) False]))"
    by (simp add: sample_get)
  have c: "VNone = VNone \<and> ([] :: value list) = [] \<or> VNone = VList []"
    by simp
  note t = append_value_command_appends [OF sample_parsed(1) sample_parsed(1) g c,
      where val = "''a''" and val' = "''b''"
        and s' = "([(PathList [''serial'', ''port''], VList [VStr ''a''])],
                   [Get (PathList [''serial'', ''port'']) False,
                    Set (PathList [''serial'', ''port'']) (VList [VStr ''a'']), Save,
                    Get (PathList [''serial'', ''port'']) False])"]
  have first:
    "append_value_command sample_library recording_settings ''serial.port'' ''a'' False
         (start []) =
       (Returned,
        \<lparr>settings =
           ([(PathList [''serial'', ''port''], VList [VStr ''a''])],
            [Get (PathList [''serial'', ''port'']) False,
             Set (PathList [''serial'', ''port'']) (VList [VStr ''a'']), Save]),
         stdout = [], stderr = []\<rparr>)"
    using t [THEN conjunct1] by (simp add: sample_path recording_simps start_def)
  have second:
    "append_value_command sample_library recording_settings ''serial.port'' ''b'' False
         (snd (append_value_command sample_library recording_settings ''serial.port'' ''a''
            False (start []))) =
       (Returned,
        \<lparr>settings =
           ([(PathList [''serial'', ''port''], VList [VStr ''a'', VStr ''b'']),
             (PathList [''serial'', ''port''], VList [VStr ''a''])],
            [Get (PathList [''serial'', ''port'']) False,
             Set (PathList [''serial'', ''port'']) (VList [VStr ''a'']), Save,
             Get (PathList [''serial'', ''port'']) False,
             Set (PathList [''serial'', ''port'']) (VList [VStr ''a'', VStr ''b'']), Save]),
         stdout = [], stderr = []\<rparr>)"
    using t [THEN conjunct2] by (simp add: sample_path recording_simps start_def)
  show ?thesis
    using g first second by simp
qed

text \<open>
  C3. \<open>remove_value\<close> on a list (\<open>None\<close> counting as the empty list): when no
  item of the list equals the value, it echoes "Value is not contained in
  list at given path" to the output stream and leaves with status 0, and no
  setter and no \<open>save\<close> has been called; when some item equals the value, the
  first such item is taken out, the other items keep their order, and the new
  list is written with \<open>set\<close> followed by \<open>save\<close>.
\<close>

theorem remove_value_command_first_match:
  assumes "(if as_json then loads L val else Inr (VStr val)) = Inr v"
    and "get S (to_settings_path (PathStr path)) False (settings w) = (current, s)"
    and "current = VNone \<and> xs = [] \<or> current = VList xs"
  shows "(\<not> (\<exists>x\<in>set xs. py_eq x v) \<longrightarrow>
            remove_value_command L S path val as_json w =
              (Exit 0,
               w\<lparr>settings := s,
                 stdout := stdout w @
                   [VStr ''Value is not contained in list at given path'']\<rparr>)) \<and>
         ((\<exists>x\<in>set xs. py_eq x v) \<longrightarrow>
            (\<exists>ys x zs. xs = ys @ x # zs \<and> (\<forall>y\<in>set ys. \<not> py_eq y v) \<and> py_eq x v \<and>
               remove_value_command L S path val as_json w =
                 (Returned,
                  w\<lparr>settings :=
                      save S (set' S (to_settings_path (PathStr path)) (VList (ys @ zs)) s)\<rparr>)))"
proof (intro conjI impI)
  assume "\<not> (\<exists>x\<in>set xs. py_eq x v)"
  then have "\<not> list_contains xs v" by (simp add: list_contains_iff)
  then show "remove_value_command L S path val as_json w =
      (Exit 0,
       w\<lparr>settings := s,
         stdout := stdout w @ [VStr ''Value is not contained in list at given path'']\<rparr>)"
    using remove_value_command_list [OF assms] by simp
next
  assume present: "\<exists>x\<in>set xs. py_eq x v"
  then have c: "list_contains xs v" by (simp add: list_contains_iff)
  from list_remove_first [OF present] obtain ys x zs where
    s: "xs = ys @ x # zs" and n: "\<forall>y\<in>set ys. \<not> py_eq y v" and e: "py_eq x v"
    and r: "list_remove xs v = Inr (ys @ zs)"
    by blast
  have "remove_value_command L S path val as_json w =
      (Returned,
       w\<lparr>settings := save S (set' S (to_settings_path (PathStr path)) (VList (ys @ zs)) s)\<rparr>)"
    using remove_value_command_list [OF assms] c r by simp
  with s n e show "\<exists>ys x zs. xs = ys @ x # zs \<and> (\<forall>y\<in>set ys. \<not> py_eq y v) \<and> py_eq x v \<and>
      remove_value_command L S path val as_json w =
        (Returned,
         w\<lparr>settings :=
             save S (set' S (to_settings_path (PathStr path)) (VList (ys @ zs)) s)\<rparr>)"
    by blast
qed

theorem remove_value_command_first_match_witness:
  "(if False then loads sample_library ''a'' else Inr (VStr ''a'')) = Inr (VStr ''a'') \<and>
   get recording_settings (to_settings_path (PathStr ''serial.port'')) False
       (settings (start [(PathList [''serial'', ''port''],
                          VList [VStr ''a'', VStr ''b'', VStr ''a''])])) =
     (VList [VStr ''a'', VStr ''b'', VStr ''a''],
      ([(PathList [''serial'', ''port''], VList [VStr ''a'', VStr ''b'', VStr ''a''])],
       [Get (PathList [''serial'', ''port'']) False])) \<and>
   remove_value_command sample_library recording_settings ''serial.port'' ''a'' False
       (start [(PathList [''serial'', ''port''], VList [VStr ''a'', VStr ''b'', VStr ''a''])]) =
     (Returned,
      \<lparr>settings =
         ([(PathList [''serial'', ''port''], VList [VStr ''b'', VStr ''a'']),
           (PathList [''serial'', ''port''], VList [VStr ''a'', VStr ''b'', VStr ''a''])],
          [Get (PathList [''serial'', ''port'']) False,
           Set (PathList [''serial'', ''port'']) (VList [VStr ''b'', VStr ''a'']), Save]),
       stdout = [], stderr = []\<rparr>) \<and>
   remove_value_command sample_library recording_settings ''serial.port'' ''c'' False
       (start [(PathList [''serial'', ''port''], VList [VStr ''a'', VStr ''b'', VStr ''a''])]) =
     (Exit 0,
      \<lparr>settings =
         ([(PathList [''serial'', ''port''], VList [VStr ''a'', VStr ''b'', VStr ''a''])],
          [Get (PathList [''serial'', ''port'']) False]),
       stdout = [VStr ''Value is not contained in list at given path''], stderr = []\<rparr>)"
proof -
  let ?t = "[(PathList [''serial'', ''port''], VList [VStr ''a'', VStr ''b'', VStr ''a''])]"
  let ?xs = "[VStr ''a'', VStr ''b'', VStr ''a'']"
  have g: "get recording_settings (to_settings_path (PathStr ''serial.port'')) False
             (settings (start ?t)) =
           (VList ?xs, (?t, [Get (PathList [''serial'', ''port'']) False]))"
    by (simp add: sample_get)
  have c: "VList ?xs = VNone \<and> ?xs = [] \<or> VList ?xs = VList ?xs"
    by simp
  note hit = remove_value_command_first_match [OF sample_parsed(1) g c, where val = "''a''",
      THEN conjunct2]
  note miss = remove_value_command_first_match [OF sample_parsed(1) g c, where val = "''c''",
      THEN conjunct1]
  have removed:
    "remove_value_command sample_library recording_settings ''serial.port'' ''a'' False
         (start ?t) =
       (Returned,
        \<lparr>settings =
           ((PathList [''serial'', ''port''], VList [VStr ''b'', VStr ''a'']) # ?t,
            [Get (PathList [''serial'', ''port'']) False,
             Set (PathList [''serial'', ''port'']) (VList [VStr ''b'', VStr ''a'']), Save]),
         stdout = [], stderr = []\<rparr>)"
    using hit
    by (auto simp add: Cons_eq_append_conv sample_path recording_simps start_def)
  have kept:
    "remove_value_command sample_library recording_settings ''serial.port'' ''c'' False
         (start ?t) =
       (Exit 0,
        \<lparr>settings = (?t, [Get (PathList [''serial'', ''port'']) False]),
         stdout = [VStr ''Value is not contained in list at given path''], stderr = []\<rparr>)"
    using miss by (simp add: start_def)
  show ?thesis
    using g removed kept by simp
qed

text \<open>
  C4, as the code has it. \<open>insert_value\<close> on a list (\<open>None\<close> counting as the
  empty list) with an index that fits the machine type \<open>Py_ssize_t\<close>, that is,
  from \<open>-sys.maxsize - 1\<close> to \<open>sys.maxsize\<close>: an index at or beyond the length
  puts the value at the end; an index from 0 to the length puts it at that
  position; a negative index counts from the end, and one below minus the
  length puts the value at the front; the items from the position on move up
  by one, and the new list is written with \<open>set\<close> followed by \<open>save\<close>.
\<close>

theorem insert_value_command_clamps:
  assumes "(if as_json then loads L val else Inr (VStr val)) = Inr v"
    and "get S (to_settings_path (PathStr path)) False (settings w) = (current, s)"
    and "current = VNone \<and> xs = [] \<or> current = VList xs"
    and "- maxsize L - 1 \<le> index"
    and "index \<le> maxsize L"
  shows "(int (length xs) \<le> index \<longrightarrow>
            insert_value_command L S path index val as_json w =
              (Returned,
               w\<lparr>settings :=
                   save S (set' S (to_settings_path (PathStr path)) (VList (xs @ [v])) s)\<rparr>)) \<and>
         (0 \<le> index \<and> index \<le> int (length xs) \<longrightarrow>
            insert_value_command L S path index val as_json w =
              (Returned,
               w\<lparr>settings :=
                   save S (set' S (to_settings_path (PathStr path))
                     (VList (take (nat index) xs @ v # drop (nat index) xs)) s)\<rparr>)) \<and>
         (index < 0 \<and> - int (length xs) \<le> index \<longrightarrow>
            insert_value_command L S path index val as_json w =
              (Returned,
               w\<lparr>settings :=
                   save S (set' S (to_settings_path (PathStr path))
                     (VList (take (length xs - nat (- index)) xs @
                             v # drop (length xs - nat (- index)) xs)) s)\<rparr>)) \<and>
         (index < - int (length xs) \<longrightarrow>
            insert_value_command L S path index val as_json w =
              (Returned,
               w\<lparr>settings :=
                   save S (set' S (to_settings_path (PathStr path)) (VList (v # xs)) s)\<rparr>))"
proof -
  let ?k = "if index < 0 then nat (int (length xs) + index) else min (nat index) (length xs)"
  have run: "insert_value_command L S path index val as_json w =
      (Returned,
       w\<lparr>settings :=
           save S (set' S (to_settings_path (PathStr path))
             (VList (take ?k xs @ v # drop ?k xs)) s)\<rparr>)"
    using insert_value_command_list [OF assms(1,2,3), of index]
      list_insert_in_range [OF assms(4,5), of xs v]
    by (simp add: Let_def)
  have at_end: "?k = length xs" if "int (length xs) \<le> index"
    using that by auto
  have at_index: "?k = nat index" if "0 \<le> index \<and> index \<le> int (length xs)"
    using that by auto
  have from_end: "?k = length xs - nat (- index)" if "index < 0 \<and> - int (length xs) \<le> index"
    using that by auto
  have at_front: "?k = 0" if "index < - int (length xs)"
    using that by auto
  show ?thesis
  proof (intro conjI impI)
    assume a: "int (length xs) \<le> index"
    show "insert_value_command L S path index val as_json w =
        (Returned,
         w\<lparr>settings :=
             save S (set' S (to_settings_path (PathStr path)) (VList (xs @ [v])) s)\<rparr>)"
      unfolding run at_end [OF a] by simp
  next
    assume a: "0 \<le> index \<and> index \<le> int (length xs)"
    show "insert_value_command L S path index val as_json w =
        (Returned,
         w\<lparr>settings :=
             save S (set' S (to_settings_path (PathStr path))
               (VList (take (nat index) xs @ v # drop (nat index) xs)) s)\<rparr>)"
      unfolding run at_index [OF a] by simp
  next
    assume a: "index < 0 \<and> - int (length xs) \<le> index"
    show "insert_value_command L S path index val as_json w =
        (Returned,
         w\<lparr>settings :=
             save S (set' S (to_settings_path (PathStr path))
               (VList (take (length xs - nat (- index)) xs @
                       v # drop (length xs - nat (- index)) xs)) s)\<rparr>)"
      unfolding run from_end [OF a] by simp
  next
    assume a: "index < - int (length xs)"
    show "insert_value_command L S path index val as_json w =
        (Returned,
         w\<lparr>settings :=
             save S (set' S (to_settings_path (PathStr path)) (VList (v # xs)) s)\<rparr>)"
      unfolding run at_front [OF a] by simp
  qed
qed

theorem insert_value_command_clamps_witness:
  "(if False then loads sample_library ''x'' else Inr (VStr ''x'')) = Inr (VStr ''x'') \<and>
   get recording_settings (to_settings_path (PathStr ''serial.port'')) False
       (settings (start [(PathList [''serial'', ''port''], VList [VInt 1, VInt 2, VInt 3])])) =
     (VList [VInt 1, VInt 2, VInt 3],
      ([(PathList [''serial'', ''port''], VList [VInt 1, VInt 2, VInt 3])],
       [Get (PathList [''serial'', ''port'']) False])) \<and>
   - maxsize sample_library - 1 \<le> 100 \<and> 100 \<le> maxsize sample_library \<and>
   - maxsize sample_library - 1 \<le> - 1 \<and> - 1 \<le> maxsize sample_library \<and>
   insert_value_command sample_library recording_settings ''serial.port'' 100 ''x'' False
       (start [(PathList [''serial'', ''port''], VList [VInt 1, VInt 2, VInt 3])]) =
     (Returned,
      \<lparr>settings =
         ([(PathList [''serial'', ''port''], VList [VInt 1, VInt 2, VInt 3, VStr ''x'']),
           (PathList [''serial'', ''port''], VList [VInt 1, VInt 2, VInt 3])],
          [Get (PathList [''serial'', ''port'']) False,
           Set (PathList [''serial'', ''port'']) (VList [VInt 1, VInt 2, VInt 3, VStr ''x'']),
           Save]),
       stdout = [], stderr = []\<rparr>) \<and>
   insert_value_command sample_library recording_settings ''serial.port'' (- 1) ''x'' False
       (start [(PathList [''serial'', ''port''], VList [VInt 1, VInt 2, VInt 3])]) =
     (Returned,
      \<lparr>settings =
         ([(PathList [''serial'', ''port''], VList [VInt 1, VInt 2, VStr ''x'', VInt 3]),
           (PathList [''serial'', ''port''], VList [VInt 1, VInt 2, VInt 3])],
          [Get (PathList [''serial'', ''port'']) False,
           Set (PathList [''serial'', ''port'']) (VList [VInt 1, VInt 2, VStr ''x'', VInt 3]),
           Save]),
       stdout = [], stderr = []\<rparr>)"
proof -
  let ?t = "[(PathList [''serial'', ''port''], VList [VInt 1, VInt 2, VInt 3])]"
  let ?xs = "[VInt 1, VInt 2, VInt 3]"
  have g: "get recording_settings (to_settings_path (PathStr ''serial.port'')) False
             (settings (start ?t)) =
           (VList ?xs, (?t, [Get (PathList [''serial'', ''port'']) False]))"
    by (simp add: sample_get)
  have c: "VList ?xs = VNone \<and> ?xs = [] \<or> VList ?xs = VList ?xs"
    by simp
  have r: "- maxsize sample_library - 1 \<le> 100" "100 \<le> maxsize sample_library"
    "- maxsize sample_library - 1 \<le> - 1" "- 1 \<le> maxsize sample_library"
    by (simp_all add: sample_library_def)
  note far = insert_value_command_clamps [OF sample_parsed(1) g c r(1,2), where val = "''x''",
      THEN conjunct1]
  note last = insert_value_command_clamps [OF sample_parsed(1) g c r(3,4), where val = "''x''",
      THEN conjunct2, THEN conjunct2, THEN conjunct1]
  have at_end:
    "insert_value_command sample_library recording_settings ''serial.port'' 100 ''x'' False
         (start ?t) =
       (Returned,
        \<lparr>settings =
           ((PathList [''serial'', ''port''], VList [VInt 1, VInt 2, VInt 3, VStr ''x'']) # ?t,
            [Get (PathList [''serial'', ''port'']) False,
             Set (PathList [''serial'', ''port''])
               (VList [VInt 1, VInt 2, VInt 3, VStr ''x'']),
             Save]),
         stdout = [], stderr = []\<rparr>)"
    using far by (simp add: sample_path recording_simps start_def)
  have before_last:
    "insert_value_command sample_library recording_settings ''serial.port'' (- 1) ''x'' False
         (start ?t) =
       (Returned,
        \<lparr>settings =
           ((PathList [''serial'', ''port''], VList [VInt 1, VInt 2, VStr ''x'', VInt 3]) # ?t,
            [Get (PathList [''serial'', ''port'']) False,
             Set (PathList [''serial'', ''port''])
               (VList [VInt 1, VInt 2, VStr ''x'', VInt 3]),
             Save]),
         stdout = [], stderr = []\<rparr>)"
    using last by (simp add: sample_path recording_simps start_def)
  show ?thesis
    using g r at_end before_last by simp
qed

text \<open>
  C4 as the claim states it, for every index, fails: the index
  9223372036854775808 is beyond the length of a list of three items, and on a
  64-bit platform \<open>list.insert\<close> raises \<open>OverflowError\<close> for it. The command
  ends with that exception after its \<open>get\<close>; the value is not put at the end
  and nothing is written.
\<close>

theorem insert_value_command_overflow_counterexample:
  "insert_value_command sample_library recording_settings ''serial.port''
       9223372036854775808 ''x'' False
       (start [(PathList [''serial'', ''port''], VList [VInt 1, VInt 2, VInt 3])]) =
     (Raised OverflowError,
      \<lparr>settings =
         ([(PathList [''serial'', ''port''], VList [VInt 1, VInt 2, VInt 3])],
          [Get (PathList [''serial'', ''port'']) False]),
       stdout = [], stderr = []\<rparr>) \<and>
   insert_value_command sample_library recording_settings ''serial.port''
       9223372036854775808 ''x'' False
       (start [(PathList [''serial'', ''port''], VList [VInt 1, VInt 2, VInt 3])]) \<noteq>
     (Returned,
      \<lparr>settings =
         ([(PathList [''serial'', ''port''], VList [VInt 1, VInt 2, VInt 3, VStr ''x'']),
           (PathList [''serial'', ''port''], VList [VInt 1, VInt 2, VInt 3])],
          [Get (PathList [''serial'', ''port'']) False,
           Set (PathList [''serial'', ''port'']) (VList [VInt 1, VInt 2, VInt 3, VStr ''x'']),
           Save]),
       stdout = [], stderr = []\<rparr>)"
proof -
  let ?t = "[(PathList [''serial'', ''port''], VList [VInt 1, VInt 2, VInt 3])]"
  let ?xs = "[VInt 1, VInt 2, VInt 3]"
  have g: "get recording_settings (to_settings_path (PathStr ''serial.port'')) False
             (settings (start ?t)) =
           (VList ?xs, (?t, [Get (PathList [''serial'', ''port'']) False]))"
    by (simp add: sample_get)
  have c: "VList ?xs = VNone \<and> ?xs = [] \<or> VList ?xs = VList ?xs"
    by simp
  have o: "list_insert (maxsize sample_library) ?xs 9223372036854775808 (VStr ''x'') =
           Inl OverflowError"
    by (simp add: list_insert_def sample_library_def)
  show ?thesis
    using insert_value_command_list [OF sample_parsed(1) g c,
      where val = "''x''" and index = 9223372036854775808]
    by (simp add: o start_def)
qed

end
